theory Spec2Isabelle
  imports Main
begin

section \<open>Python values and built-ins used by terraform.py\<close>

text \<open>
  A Python \<open>str\<close> is a \<open>string\<close> whose characters are read as code points below 256.
  The option values that \<open>Terraform.cmd\<close> documents for its keyword arguments are: the two
  flag classes, \<open>None\<close>, booleans, strings and integers, lists of such scalars, and
  string-to-string dictionaries. A tuple of scalars is a value as well: \<open>targets\<close> is
  annotated \<open>Sequence[str]\<close> and stored as given. Floats, nested containers and the other
  sequence types are outside the model.
\<close>

type_synonym bytes = "char list"

datatype atom = PStr string | PInt int | PBool bool | PNone

datatype pyvalue =
    IsFlagged
  | IsNotFlagged
  | Atom atom
  | PList "atom list"
  | PTuple "atom list"
  | PDict "(string \<times> string) list"

type_synonym kwargs = "(string \<times> pyvalue) list"

datatype json =
    JNull
  | JBool bool
  | JInt int
  | JString string
  | JArray "json list"
  | JObject "(string \<times> json) list"

datatype error =
    IndexError
  | TypeError
  | AttributeError
  | ValueError string
  | OSError
  | FileNotFoundError string
  | PermissionError string
  | UnicodeDecodeError
  | JSONDecodeError
  | StateReadError
  | TerraformCommandError int string "string option" "string option"

text \<open>\<open>str(n)\<close> for an integer: decimal digits, with a minus sign when negative.\<close>

fun str_of_nat :: "nat \<Rightarrow> string" where
  "str_of_nat n =
     (if n < 10 then [''0123456789'' ! n]
      else str_of_nat (n div 10) @ [''0123456789'' ! (n mod 10)])"

declare str_of_nat.simps [simp del]

definition str_of_int :: "int \<Rightarrow> string" where
  "str_of_int i = (if i < 0 then CHR ''-'' # str_of_nat (nat (- i)) else str_of_nat (nat i))"

text \<open>\<open>str(x)\<close>, as an f-string applies it to a list element.\<close>

fun py_str :: "atom \<Rightarrow> string" where
  "py_str (PStr s) = s"
| "py_str (PInt i) = str_of_int i"
| "py_str (PBool b) = (if b then ''True'' else ''False'')"
| "py_str PNone = ''None''"

text \<open>Truthiness, as \<open>if x\<close>, \<open>not x\<close> and \<open>x and y\<close> test it. A class object is true.\<close>

fun truthy :: "pyvalue \<Rightarrow> bool" where
  "truthy IsFlagged = True"
| "truthy IsNotFlagged = True"
| "truthy (Atom (PStr s)) = (s \<noteq> [])"
| "truthy (Atom (PInt i)) = (i \<noteq> 0)"
| "truthy (Atom (PBool b)) = b"
| "truthy (Atom PNone) = False"
| "truthy (PList xs) = (xs \<noteq> [])"
| "truthy (PTuple xs) = (xs \<noteq> [])"
| "truthy (PDict d) = (d \<noteq> [])"

definition truthy_str :: "string option \<Rightarrow> bool" where
  "truthy_str s = (case s of None \<Rightarrow> False | Some t \<Rightarrow> t \<noteq> [])"

text \<open>\<open>str.isspace\<close> on one character, for code points below 256.\<close>

definition py_isspace :: "char \<Rightarrow> bool" where
  "py_isspace c =
     (let n = (of_char c :: nat)
      in (9 \<le> n \<and> n \<le> 13) \<or> (28 \<le> n \<and> n \<le> 32) \<or> n = 133 \<or> n = 160)"

text \<open>\<open>s.split()\<close> with no separator: the maximal runs of non-whitespace characters.\<close>

fun split_words :: "string \<Rightarrow> string \<Rightarrow> string list" where
  "split_words cur [] = (if cur = [] then [] else [cur])"
| "split_words cur (c # cs) =
     (if py_isspace c
      then (if cur = [] then split_words [] cs else cur # split_words [] cs)
      else split_words (cur @ [c]) cs)"

definition py_split :: "string \<Rightarrow> string list" where
  "py_split s = split_words [] s"

definition py_lstrip :: "string \<Rightarrow> string" where
  "py_lstrip s = dropWhile py_isspace s"

text \<open>\<open>sep.join(xs)\<close>.\<close>

fun py_join :: "string \<Rightarrow> string list \<Rightarrow> string" where
  "py_join sep [] = []"
| "py_join sep [x] = x"
| "py_join sep (x # y # ys) = x @ sep @ py_join sep (y # ys)"

text \<open>\<open>sub in s\<close> on strings: \<open>sub\<close> occurs as a contiguous slice of \<open>s\<close>.\<close>

fun py_in :: "string \<Rightarrow> string \<Rightarrow> bool" where
  "py_in sub [] = (sub = [])"
| "py_in sub (c # cs) = (take (length sub) (c # cs) = sub \<or> py_in sub cs)"

text \<open>\<open>s.replace("_", "-")\<close>.\<close>

definition replace_underscores :: "string \<Rightarrow> string" where
  "replace_underscores s = map (\<lambda>c. if c = CHR ''_'' then CHR ''-'' else c) s"

text \<open>
  A \<open>dict\<close> keeps its keys unique and in insertion order: \<open>d[k] = v\<close> overwrites in place
  when \<open>k\<close> is present and appends otherwise; \<open>d.update(e)\<close> and \<open>{**d, **e}\<close> store the
  entries of \<open>e\<close> one after the other.
\<close>

fun dict_set :: "(string \<times> 'v) list \<Rightarrow> string \<Rightarrow> 'v \<Rightarrow> (string \<times> 'v) list" where
  "dict_set [] k v = [(k, v)]"
| "dict_set ((k', v') # d) k v = (if k' = k then (k, v) # d else (k', v') # dict_set d k v)"

fun dict_update :: "(string \<times> 'v) list \<Rightarrow> (string \<times> 'v) list \<Rightarrow> (string \<times> 'v) list" where
  "dict_update d [] = d"
| "dict_update d ((k, v) # e) = dict_update (dict_set d k v) e"

definition dict_del :: "(string \<times> 'v) list \<Rightarrow> string \<Rightarrow> (string \<times> 'v) list" where
  "dict_del d k = filter (\<lambda>kv. fst kv \<noteq> k) d"

definition dict_get :: "(string \<times> 'v) list \<Rightarrow> string \<Rightarrow> 'v \<Rightarrow> 'v" where
  "dict_get d k dflt = (case map_of d k of None \<Rightarrow> dflt | Some v \<Rightarrow> v)"

text \<open>\<open>os.path.join(a, *p)\<close> of \<open>posixpath\<close>.\<close>

definition path_join_step :: "string \<Rightarrow> string \<Rightarrow> string" where
  "path_join_step path b =
     (if take 1 b = ''/'' then b
      else if path = [] \<or> last path = CHR ''/'' then path @ b
      else path @ ''/'' @ b)"

definition path_join :: "string \<Rightarrow> string list \<Rightarrow> string" where
  "path_join a p = foldl path_join_step a p"

section \<open>The platform and the state\<close>

text \<open>
  What the module takes from outside itself is a parameter of the model:
  \<^item> \<open>str_dict\<close>, \<open>str_tuple\<close>: \<open>str(d)\<close> of a dictionary and of a tuple, as an f-string
    applies it;
  \<^item> \<open>json_dumps\<close>, \<open>json_loads\<close>: the \<open>json\<close> module (\<open>None\<close> is a \<open>JSONDecodeError\<close>);
  \<^item> \<open>bytes_decode\<close>: \<open>bytes.decode()\<close> (\<open>None\<close> is a \<open>UnicodeDecodeError\<close>);
  \<^item> \<open>tmp_stem\<close>: the directory, prefix and random part of the name that
    \<open>tempfile.NamedTemporaryFile\<close> picks, given the files that exist;
  \<^item> \<open>unlink_refused\<close>: the paths that \<open>os.unlink\<close> is not allowed to remove although the
    file exists (permissions, a read-only file system);
  \<^item> \<open>environ\<close>: \<open>os.environ\<close>;
  \<^item> \<open>popen\<close>: the child process, given its command line, where its two streams go
    (a pipe, no redirection, or \<open>sys.stdout\<close> and \<open>sys.stderr\<close>), working directory, environment
    and the files that exist: it fails to start, or it exits with a return code, the bytes
    written to its two streams, and the files it leaves behind;
  \<^item> \<open>load_file\<close>: \<open>Tfstate.load_file\<close> of \<open>python_terraform.tfstate\<close>, given the files
    that exist and a path (\<open>None\<close> is an exception of the reader, \<open>StateReadError\<close> below).

  A child that never exits is not modelled: \<open>communicate\<close> would wait for ever.
\<close>

type_synonym disk = "string \<rightharpoonup> string"

datatype stdio = PIPE | NoRedirect | SysStream

datatype proc_result =
    SpawnFails
  | Exits int bytes bytes disk

record 'ts platform =
  str_dict :: "(string \<times> string) list \<Rightarrow> string"
  str_tuple :: "atom list \<Rightarrow> string"
  json_dumps :: "(string \<times> string) list \<Rightarrow> string"
  json_loads :: "string \<Rightarrow> json option"
  bytes_decode :: "bytes \<Rightarrow> string option"
  tmp_stem :: "disk \<Rightarrow> string"
  unlink_refused :: "string \<Rightarrow> bool"
  environ :: "(string \<times> string) list"
  popen :: "string list \<Rightarrow> stdio \<Rightarrow> string option \<Rightarrow> (string \<times> string) list \<Rightarrow> disk \<Rightarrow> proc_result"
  load_file :: "disk \<Rightarrow> string \<Rightarrow> 'ts option"

text \<open>
  The files on disk, with a log of the calls whose number the specification speaks of.
  The log is only ever appended to and never read by the program.
\<close>

datatype event = EvPopen "string list" | EvReadStateFile | EvCleanUp

record world =
  disk :: disk
  calls :: "event list"

text \<open>
  The fields of a \<open>Terraform\<close> object. \<open>temp_var_files\<close> is \<open>self.temp_var_files.files\<close>,
  each open file standing by its name.
\<close>

record 'ts terraform =
  is_env_vars_included :: bool
  working_dir :: "string option"
  state :: "string option"
  targets :: pyvalue
  variables :: "(string \<times> string) list"
  parallelism :: "string option"
  terraform_bin_path :: string
  var_file :: pyvalue
  temp_var_files :: "string list"
  tfstate :: "'ts option"

definition COMMAND_WITH_SUBCOMMANDS :: "string list" where
  "COMMAND_WITH_SUBCOMMANDS = [''workspace'']"

section \<open>VariableFiles\<close>

text \<open>\<open>VariableFiles.create\<close>: a new file named with the suffix, tracked, holding the JSON text.\<close>

definition create ::
  "'ts platform \<Rightarrow> (string \<times> string) list \<Rightarrow> 'ts terraform \<Rightarrow> world
     \<Rightarrow> string \<times> 'ts terraform \<times> world" where
  "create pf vars tf w =
     (let file_name = tmp_stem pf (disk w) @ ''.tfvars.json''
      in (file_name,
          tf\<lparr>temp_var_files := temp_var_files tf @ [file_name]\<rparr>,
          w\<lparr>disk := (disk w)(file_name \<mapsto> json_dumps pf vars)\<rparr>))"

text \<open>
  The loop of \<open>clean_up\<close>: \<open>os.unlink\<close> raises at the first name that is not on disk, or
  that it is not allowed to remove, the files before it being removed already.
\<close>

fun unlink_all :: "(string \<Rightarrow> bool) \<Rightarrow> string list \<Rightarrow> disk \<Rightarrow> error option \<times> disk" where
  "unlink_all refused [] d = (None, d)"
| "unlink_all refused (f # fs) d =
     (case d f of
        None \<Rightarrow> (Some (FileNotFoundError f), d)
      | Some _ \<Rightarrow>
          if refused f then (Some (PermissionError f), d)
          else unlink_all refused fs (d(f := None)))"

text \<open>\<open>VariableFiles.clean_up\<close>: the list is reset only when the loop has run through.\<close>

definition clean_up ::
  "'ts platform \<Rightarrow> 'ts terraform \<Rightarrow> world \<Rightarrow> (error + unit) \<times> 'ts terraform \<times> world" where
  "clean_up pf tf w =
     (let w1 = w\<lparr>calls := calls w @ [EvCleanUp]\<rparr>
      in case unlink_all (unlink_refused pf) (temp_var_files tf) (disk w1) of
           (Some e, d) \<Rightarrow> (Inl e, tf, w1\<lparr>disk := d\<rparr>)
         | (None, d) \<Rightarrow> (Inr (), tf\<lparr>temp_var_files := []\<rparr>, w1\<lparr>disk := d\<rparr>))"

section \<open>generate_cmd_string\<close>

text \<open>The body of the loop over \<open>kwargs.items()\<close>, in the order of its tests.\<close>

fun encode_option ::
  "'ts platform \<Rightarrow> string \<Rightarrow> pyvalue \<Rightarrow> string list \<Rightarrow> 'ts terraform \<Rightarrow> world
     \<Rightarrow> string list \<times> 'ts terraform \<times> world" where
  "encode_option pf option (PList xs) cmds tf w =
     (cmds @ map (\<lambda>sub_v. ''-'' @ option @ ''='' @ py_str sub_v) xs, tf, w)"
| "encode_option pf option (PDict d) cmds tf w =
     (if py_in ''backend-config'' option
      then (cmds @ map (\<lambda>(bk, bv). ''-backend-config='' @ bk @ ''='' @ bv) d, tf, w)
      else if option = ''var''
      then (if d \<noteq> []
            then (case create pf d tf w of
                    (filename, tf', w') \<Rightarrow> (cmds @ [''-var-file='' @ filename], tf', w'))
            else (cmds, tf, w))
      else (cmds @ [''-'' @ option @ ''='' @ str_dict pf d], tf, w))"
| "encode_option pf option IsFlagged cmds tf w = (cmds @ [''-'' @ option], tf, w)"
| "encode_option pf option IsNotFlagged cmds tf w = (cmds, tf, w)"
| "encode_option pf option (Atom PNone) cmds tf w = (cmds, tf, w)"
| "encode_option pf option (Atom (PBool b)) cmds tf w =
     (cmds @ [''-'' @ option @ ''='' @ (if b then ''true'' else ''false'')], tf, w)"
| "encode_option pf option (Atom a) cmds tf w =
     (cmds @ [''-'' @ option @ ''='' @ py_str a], tf, w)"
| "encode_option pf option (PTuple xs) cmds tf w =
     (cmds @ [''-'' @ option @ ''='' @ str_tuple pf xs], tf, w)"

definition cli_name :: "string \<Rightarrow> string" where
  "cli_name option = (if CHR ''_'' \<in> set option then replace_underscores option else option)"

fun for_options ::
  "'ts platform \<Rightarrow> kwargs \<Rightarrow> string list \<Rightarrow> 'ts terraform \<Rightarrow> world
     \<Rightarrow> string list \<times> 'ts terraform \<times> world" where
  "for_options pf [] cmds tf w = (cmds, tf, w)"
| "for_options pf ((option, v) # rest) cmds tf w =
     (case encode_option pf (cli_name option) v cmds tf w of
        (cmds', tf', w') \<Rightarrow> for_options pf rest cmds' tf' w')"

text \<open>
  \<open>generate_cmd_string\<close>: \<open>args.pop(0)\<close> raises \<open>IndexError\<close> on an empty list, before any
  option is encoded.
\<close>

definition generate_cmd_string ::
  "'ts platform \<Rightarrow> string \<Rightarrow> string list \<Rightarrow> kwargs \<Rightarrow> 'ts terraform \<Rightarrow> world
     \<Rightarrow> error + (string list \<times> 'ts terraform \<times> world)" where
  "generate_cmd_string pf cmd args kw tf w =
     (let cmds = [terraform_bin_path tf] @ py_split cmd
      in if cmd \<in> set COMMAND_WITH_SUBCOMMANDS
         then (case args of
                 [] \<Rightarrow> Inl IndexError
               | subcommand # args' \<Rightarrow>
                   (case for_options pf kw (cmds @ [subcommand]) tf w of
                      (cmds', tf', w') \<Rightarrow> Inr (cmds' @ args', tf', w')))
         else (case for_options pf kw cmds tf w of
                 (cmds', tf', w') \<Rightarrow> Inr (cmds' @ args, tf', w')))"

section \<open>read_state_file\<close>

text \<open>\<open>a or b\<close> on optional strings: the first that is neither \<open>None\<close> nor empty.\<close>

definition str_or :: "string option \<Rightarrow> string \<Rightarrow> string" where
  "str_or a b = (case a of None \<Rightarrow> b | Some s \<Rightarrow> if s \<noteq> [] then s else b)"

definition read_state_file ::
  "'ts platform \<Rightarrow> string option \<Rightarrow> 'ts terraform \<Rightarrow> world
     \<Rightarrow> (error + unit) \<times> 'ts terraform \<times> world" where
  "read_state_file pf file_path tf w =
     (let w1 = w\<lparr>calls := calls w @ [EvReadStateFile]\<rparr>;
          wd = str_or (working_dir tf) [];
          fp = str_or file_path (str_or (state tf) []);
          fp' = (if fp = []
                 then (let backend_path = path_join fp [''.terraform'', ''terraform.tfstate'']
                       in if disk w1 (path_join wd [backend_path]) \<noteq> None
                          then backend_path
                          else path_join fp [''terraform.tfstate''])
                 else fp)
      in case load_file pf (disk w1) (path_join wd [fp']) of
           None \<Rightarrow> (Inl StateReadError, tf, w1)
         | Some ts \<Rightarrow> (Inr (), tf\<lparr>tfstate := Some ts\<rparr>, w1))"

section \<open>cmd\<close>

type_synonym outcome = "int option \<times> string option \<times> string option"

text \<open>The decoding of the two captured streams, or \<open>None\<close> for both when not captured.\<close>

definition decode_streams ::
  "'ts platform \<Rightarrow> pyvalue \<Rightarrow> bytes \<Rightarrow> bytes \<Rightarrow> error + (string option \<times> string option)" where
  "decode_streams pf capture_output out err =
     (if capture_output = Atom (PBool True)
      then (case bytes_decode pf out of
              None \<Rightarrow> Inl UnicodeDecodeError
            | Some out' \<Rightarrow>
                (case bytes_decode pf err of
                   None \<Rightarrow> Inl UnicodeDecodeError
                 | Some err' \<Rightarrow> Inr (Some out', Some err')))
      else Inr (None, None))"

text \<open>The stream handles, the working folder and the environment that \<open>cmd\<close> gives to \<open>Popen\<close>.\<close>

definition stdio_of :: "pyvalue \<Rightarrow> stdio" where
  "stdio_of capture_output =
     (if capture_output = Atom (PBool True) then PIPE
      else if capture_output = Atom (PStr ''framework'') then NoRedirect
      else SysStream)"

definition working_folder :: "'ts terraform \<Rightarrow> string option" where
  "working_folder tf = (if truthy_str (working_dir tf) then working_dir tf else None)"

definition environ_vars :: "'ts platform \<Rightarrow> 'ts terraform \<Rightarrow> (string \<times> string) list" where
  "environ_vars pf tf = (if is_env_vars_included tf then environ pf else [])"

text \<open>
  \<open>Terraform.cmd\<close>, with its three keyword-only parameters written out. An exception
  leaves the object and the disk as they are at the statement that raises.
\<close>

definition cmd ::
  "'ts platform \<Rightarrow> string \<Rightarrow> string list \<Rightarrow> pyvalue \<Rightarrow> pyvalue \<Rightarrow> pyvalue \<Rightarrow> kwargs
     \<Rightarrow> 'ts terraform \<Rightarrow> world \<Rightarrow> (error + outcome) \<times> 'ts terraform \<times> world" where
  "cmd pf c args capture_output raise_on_error synchronous kw tf w =
     (case generate_cmd_string pf c args kw tf w of
        Inl e \<Rightarrow> (Inl e, tf, w)
      | Inr (cmds, tf1, w1) \<Rightarrow>
          (case popen pf cmds (stdio_of capture_output) (working_folder tf1)
                  (environ_vars pf tf1) (disk w1) of
             SpawnFails \<Rightarrow> (Inl OSError, tf1, w1)
           | Exits ret_code out err d \<Rightarrow>
               (let w2 = w1\<lparr>calls := calls w1 @ [EvPopen cmds]\<rparr>
                in if \<not> truthy synchronous then (Inr (None, None, None), tf1, w2)
                   else
                     (case (if ret_code = 0
                            then read_state_file pf None tf1 (w2\<lparr>disk := d\<rparr>)
                            else (Inr (), tf1, w2\<lparr>disk := d\<rparr>)) of
                        (Inl e, tf3, w3) \<Rightarrow> (Inl e, tf3, w3)
                      | (Inr _, tf3, w3) \<Rightarrow>
                          (case clean_up pf tf3 w3 of
                             (Inl e, tf4, w4) \<Rightarrow> (Inl e, tf4, w4)
                           | (Inr _, tf4, w4) \<Rightarrow>
                               (case decode_streams pf capture_output out err of
                                  Inl e \<Rightarrow> (Inl e, tf4, w4)
                                | Inr (out', err') \<Rightarrow>
                                    if ret_code > 0 \<and> truthy raise_on_error
                                    then (Inl (TerraformCommandError ret_code
                                                 (py_join '' '' cmds) out' err'), tf4, w4)
                                    else (Inr (Some ret_code, out', err'), tf4, w4)))))))"

text \<open>
  The child process of an invocation: what \<open>Popen\<close> is called with leads to, or \<open>None\<close>
  when building the command line raises before any process is started.
\<close>

definition child ::
  "'ts platform \<Rightarrow> string \<Rightarrow> string list \<Rightarrow> pyvalue \<Rightarrow> kwargs
     \<Rightarrow> 'ts terraform \<Rightarrow> world \<Rightarrow> proc_result option" where
  "child pf c args capture_output kw tf w =
     (case generate_cmd_string pf c args kw tf w of
        Inl e \<Rightarrow> None
      | Inr (cmds, tf1, w1) \<Rightarrow>
          Some (popen pf cmds (stdio_of capture_output) (working_folder tf1)
                  (environ_vars pf tf1) (disk w1)))"

text \<open>
  The call \<open>self.cmd(name, *args, **options)\<close>: the three keyword-only parameters are bound
  from \<open>options\<close> when present and default to \<open>True\<close>; the other entries are \<open>kwargs\<close>, in
  their order. A key \<open>self\<close> or \<open>cmd\<close> collides with a positional parameter.
\<close>

definition has_key :: "(string \<times> 'v) list \<Rightarrow> string \<Rightarrow> bool" where
  "has_key d k = (map_of d k \<noteq> None)"

definition cmd_call ::
  "'ts platform \<Rightarrow> string \<Rightarrow> string list \<Rightarrow> kwargs
     \<Rightarrow> 'ts terraform \<Rightarrow> world \<Rightarrow> (error + outcome) \<times> 'ts terraform \<times> world" where
  "cmd_call pf c args options tf w =
     (if has_key options ''self'' \<or> has_key options ''cmd'' then (Inl TypeError, tf, w)
      else cmd pf c args
             (dict_get options ''capture_output'' (Atom (PBool True)))
             (dict_get options ''raise_on_error'' (Atom (PBool True)))
             (dict_get options ''synchronous'' (Atom (PBool True)))
             (dict_del (dict_del (dict_del options ''capture_output'') ''raise_on_error'')
                ''synchronous'')
             tf w)"

section \<open>The shims\<close>

text \<open>The function that \<open>__getattr__\<close> returns for a name that is no method of the class.\<close>

definition endswith :: "string \<Rightarrow> string \<Rightarrow> bool" where
  "endswith s suffix = (length suffix \<le> length s \<and> drop (length s - length suffix) s = suffix)"

definition wrapper ::
  "'ts platform \<Rightarrow> string \<Rightarrow> string list \<Rightarrow> kwargs
     \<Rightarrow> 'ts terraform \<Rightarrow> world \<Rightarrow> (error + outcome) \<times> 'ts terraform \<times> world" where
  "wrapper pf item args kw tf w =
     (let cmd_name = (if endswith item ''_cmd'' then take (length item - 4) item else item)
      in cmd_call pf cmd_name args kw tf w)"

definition opt_str :: "string option \<Rightarrow> pyvalue" where
  "opt_str s = (case s of None \<Rightarrow> Atom PNone | Some t \<Rightarrow> Atom (PStr t))"


definition generate_default_options :: "'ts terraform \<Rightarrow> kwargs \<Rightarrow> kwargs" where
  "generate_default_options tf input_options =
     dict_update
       [(''state'', opt_str (state tf)),
        (''target'', targets tf),
        (''var'', PDict (variables tf)),
        (''var_file'', var_file tf),
        (''parallelism'', opt_str (parallelism tf)),
        (''no_color'', IsFlagged),
        (''input'', Atom (PBool False))]
       input_options"




text \<open>
  \<open>Terraform.output\<close>: \<open>None\<close> when the return code is true, else the parsed text.
  \<open>out.lstrip()\<close> raises \<open>AttributeError\<close> when nothing was captured.
\<close>

definition output_shim ::
  "'ts platform \<Rightarrow> string list \<Rightarrow> pyvalue \<Rightarrow> kwargs
     \<Rightarrow> 'ts terraform \<Rightarrow> world \<Rightarrow> (error + json option) \<times> 'ts terraform \<times> world" where
  "output_shim pf args capture_output kw tf w =
     (let kw' = dict_set kw ''json'' IsFlagged
      in if capture_output = Atom (PBool False)
         then (Inl (ValueError ''capture_output is required for this method''), tf, w)
         else
           (case wrapper pf ''output_cmd'' args kw' tf w of
              (Inl e, tf', w') \<Rightarrow> (Inl e, tf', w')
            | (Inr (ret, out, err), tf', w') \<Rightarrow>
                if (case ret of None \<Rightarrow> False | Some r \<Rightarrow> r \<noteq> 0) then (Inr None, tf', w')
                else
                  (case out of
                     None \<Rightarrow> (Inl AttributeError, tf', w')
                   | Some text \<Rightarrow>
                       (case json_loads pf (py_lstrip text) of
                          None \<Rightarrow> (Inl JSONDecodeError, tf', w')
                        | Some j \<Rightarrow> (Inr (Some j), tf', w')))))"

section \<open>A small installation to run the model on\<close>

text \<open>
  A platform whose child process is given by \<open>behaviour\<close>, whose JSON library knows the
  texts of \<open>{"a": "b"}\<close> and \<open>{}\<close>, which prints the tuples \<open>('a', 'b')\<close> and \<open>()\<close>, lets every
  file be removed, and whose state reader returns the path it is given.
\<close>

definition json_of :: "(string \<times> string) list \<Rightarrow> json" where
  "json_of d = JObject (map (\<lambda>(k, v). (k, JString v)) d)"

definition demo_platform :: "(disk \<Rightarrow> proc_result) \<Rightarrow> string platform" where
  "demo_platform behaviour =
     \<lparr>str_dict = (\<lambda>d. ''{}''),
      str_tuple = (\<lambda>xs. if xs = [PStr ''a'', PStr ''b''] then ''('a', 'b')'' else ''()''),
      json_dumps = (\<lambda>d. if d = [(''a'', ''b'')] then ''{\"a\": \"b\"}'' else ''{}''),
      json_loads = (\<lambda>s. if s = ''{\"a\": \"b\"}'' then Some (JObject [(''a'', JString ''b'')])
                         else if s = ''{}'' then Some (JObject []) else None),
      bytes_decode = Some,
      tmp_stem = (\<lambda>d. if d ''/tmp/tmp0.tfvars.json'' = None then ''/tmp/tmp0'' else ''/tmp/tmp1''),
      unlink_refused = (\<lambda>p. False),
      environ = [],
      popen = (\<lambda>cmds io cwd env d. behaviour d),
      load_file = (\<lambda>d p. Some p)\<rparr>"

definition demo_tf :: "string terraform" where
  "demo_tf =
     \<lparr>is_env_vars_included = True, working_dir = None, state = None, targets = PList [],
      variables = [], parallelism = None, terraform_bin_path = ''terraform'',
      var_file = Atom PNone, temp_var_files = [], tfstate = None\<rparr>"

definition demo_world :: world where
  "demo_world = \<lparr>disk = Map.empty, calls = []\<rparr>"

section \<open>The loop of generate_cmd_string\<close>

text \<open>Each pass of the loop only appends to the tokens built so far.\<close>

lemma encode_option_append:
  "encode_option pf opt v cmds tf w =
     (case encode_option pf opt v [] tf w of (t, tf', w') \<Rightarrow> (cmds @ t, tf', w'))"
  by (cases "(pf, opt, v, cmds, tf, w)" rule: encode_option.cases)
     (simp_all add: create_def Let_def split: prod.splits)

lemma for_options_append:
  "for_options pf kw cmds tf w =
     (case for_options pf kw [] tf w of (t, tf', w') \<Rightarrow> (cmds @ t, tf', w'))"
proof (induction kw arbitrary: cmds tf w)
  case Nil
  show ?case by simp
next
  case (Cons kv kw)
  obtain k v where kv: "kv = (k, v)" by (cases kv)
  obtain t1 tf1 w1 where e: "encode_option pf (cli_name k) v [] tf w = (t1, tf1, w1)"
    by (cases "encode_option pf (cli_name k) v [] tf w")
  have e': "encode_option pf (cli_name k) v cmds tf w = (cmds @ t1, tf1, w1)"
    using encode_option_append [of pf "cli_name k" v cmds tf w] e by simp
  show ?case
    using Cons.IH [of "cmds @ t1" tf1 w1] Cons.IH [of t1 tf1 w1]
    by (simp add: kv e e' split: prod.splits)
qed

text \<open>The loop over a dictionary, cut at one of its entries.\<close>

lemma for_options_split:
  "for_options pf (pre @ (k, v) # post) cmds tf w =
     (case for_options pf pre cmds tf w of
        (c1, tf1, w1) \<Rightarrow>
          (case encode_option pf (cli_name k) v c1 tf1 w1 of
             (c2, tf2, w2) \<Rightarrow> for_options pf post c2 tf2 w2))"
proof (induction pre arbitrary: cmds tf w)
  case Nil
  show ?case by simp
next
  case (Cons kv pre)
  obtain k' v' where kv: "kv = (k', v')" by (cases kv)
  show ?case
    by (simp add: kv Cons.IH split: prod.splits)
qed

text \<open>The loop changes nothing of the object but its tracked files, and nothing of the world
  but the disk.\<close>

lemma encode_option_frame:
  "encode_option pf opt v cmds tf w = (c', tf', w') \<Longrightarrow>
     tf' = tf\<lparr>temp_var_files := temp_var_files tf'\<rparr> \<and> w' = w\<lparr>disk := disk w'\<rparr>"
  by (cases "(pf, opt, v, cmds, tf, w)" rule: encode_option.cases)
     (auto simp: create_def Let_def split: if_splits)

lemma for_options_frame:
  "for_options pf kw cmds tf w = (c', tf', w') \<Longrightarrow>
     tf' = tf\<lparr>temp_var_files := temp_var_files tf'\<rparr> \<and> w' = w\<lparr>disk := disk w'\<rparr>"
proof (induction kw arbitrary: cmds tf w)
  case Nil
  then show ?case by simp
next
  case (Cons kv kw)
  obtain k v where kv: "kv = (k, v)" by (cases kv)
  obtain c1 tf1 w1 where e: "encode_option pf (cli_name k) v cmds tf w = (c1, tf1, w1)"
    by (cases "encode_option pf (cli_name k) v cmds tf w")
  from Cons.prems have r: "for_options pf kw c1 tf1 w1 = (c', tf', w')"
    by (simp add: kv e)
  from encode_option_frame [OF e] Cons.IH [OF r]
  have "tf' = tf\<lparr>temp_var_files := temp_var_files tf1\<rparr>\<lparr>temp_var_files := temp_var_files tf'\<rparr>"
    and "w' = w\<lparr>disk := disk w1\<rparr>\<lparr>disk := disk w'\<rparr>"
    by simp_all
  then show ?case by simp
qed

lemma cli_name_var: "cli_name ''var'' = ''var''"
  by (simp add: cli_name_def)

lemma py_split_plan: "py_split ''plan'' = [''plan'']"
  by (simp add: py_split_def py_isspace_def)

section \<open>Properties of the encoding\<close>

text \<open>
  C4. An option named \<open>var\<close> that holds a map: when the map is empty the loop goes on with
  the tokens, the tracked files and the disk it had before the option; when it is not, one
  token \<open>-var-file=<path>\<close> is appended, one file is added to the tracked files, and the disk
  changes at that one path, whose text is the JSON serialisation of the map, so that
  parsing it gives the map back wherever the JSON library parses what it serialised.
\<close>

theorem var_map_encoding:
  assumes "for_options pf pre cmds tf w = (c1, tf1, w1)"
    and "path = tmp_stem pf (disk w1) @ ''.tfvars.json''"
  shows "for_options pf (pre @ (''var'', PDict d) # post) cmds tf w =
           (if d = [] then for_options pf post c1 tf1 w1
            else for_options pf post (c1 @ [''-var-file='' @ path])
                   (tf1\<lparr>temp_var_files := temp_var_files tf1 @ [path]\<rparr>)
                   (w1\<lparr>disk := (disk w1)(path \<mapsto> json_dumps pf d)\<rparr>))
         \<and> (json_loads pf (json_dumps pf d) = Some (json_of d) \<longrightarrow>
              Option.bind (((disk w1)(path \<mapsto> json_dumps pf d)) path) (json_loads pf)
                = Some (json_of d))"
  using assms
  by (simp add: for_options_split cli_name_var create_def Let_def)

theorem var_map_encoding_witness:
  "generate_cmd_string (demo_platform (\<lambda>d. SpawnFails)) ''plan'' []
       [(''no_color'', IsFlagged), (''var'', PDict []), (''input'', Atom (PBool False))]
       demo_tf demo_world
     = Inr ([''terraform'', ''plan'', ''-no-color'', ''-input=false''], demo_tf, demo_world)
   \<and> generate_cmd_string (demo_platform (\<lambda>d. SpawnFails)) ''plan'' []
       [(''no_color'', IsFlagged), (''var'', PDict [(''a'', ''b'')]), (''input'', Atom (PBool False))]
       demo_tf demo_world
     = Inr ([''terraform'', ''plan'', ''-no-color'', ''-var-file=/tmp/tmp0.tfvars.json'',
             ''-input=false''],
            demo_tf\<lparr>temp_var_files := [''/tmp/tmp0.tfvars.json'']\<rparr>,
            demo_world\<lparr>disk := [''/tmp/tmp0.tfvars.json'' \<mapsto> ''{\"a\": \"b\"}'']\<rparr>)
   \<and> json_loads (demo_platform (\<lambda>d. SpawnFails)) ''{\"a\": \"b\"}'' = Some (json_of [(''a'', ''b'')])"
proof -
  let ?pf = "demo_platform (\<lambda>d. SpawnFails)"
  have pre: "for_options ?pf [(''no_color'', IsFlagged)] [''terraform'', ''plan''] demo_tf demo_world
               = ([''terraform'', ''plan'', ''-no-color''], demo_tf, demo_world)"
    by (simp add: cli_name_def replace_underscores_def)
  have path: "''/tmp/tmp0.tfvars.json'' = tmp_stem ?pf (disk demo_world) @ ''.tfvars.json''"
    by (simp add: demo_platform_def demo_world_def)
  show ?thesis
    using var_map_encoding [OF pre path, of "[]" "[(''input'', Atom (PBool False))]"]
      var_map_encoding [OF pre path, of "[(''a'', ''b'')]" "[(''input'', Atom (PBool False))]"]
    by (simp add: generate_cmd_string_def COMMAND_WITH_SUBCOMMANDS_def py_split_plan cli_name_def
          demo_platform_def demo_tf_def demo_world_def json_of_def)
qed

text \<open>
  C6, as the code has it. An option whose value is a list: one token \<open>-name=element\<close> is
  appended per element, in the order of the list, \<open>name\<close> being the option's name with its
  underscores turned to dashes; nothing else changes, and an empty list appends no token.
  A tuple is not a list for \<open>isinstance(value, list)\<close>: it is encoded as a scalar is, in the
  one token \<open>-name=str(value)\<close>, also when it is empty.
\<close>

theorem list_option_encoding:
  assumes "for_options pf pre cmds tf w = (c1, tf1, w1)"
  shows "for_options pf (pre @ (name, PList xs) # post) cmds tf w =
           for_options pf post
             (c1 @ map (\<lambda>element. ''-'' @ cli_name name @ ''='' @ py_str element) xs) tf1 w1
         \<and> for_options pf (pre @ (name, PList []) # post) cmds tf w =
             for_options pf post c1 tf1 w1
         \<and> for_options pf (pre @ (name, PTuple xs) # post) cmds tf w =
             for_options pf post (c1 @ [''-'' @ cli_name name @ ''='' @ str_tuple pf xs]) tf1 w1"
  using assms by (simp add: for_options_split)

theorem list_option_encoding_witness:
  "generate_cmd_string (demo_platform (\<lambda>d. SpawnFails)) ''plan'' [''dir'']
       [(''no_color'', IsFlagged), (''target'', PList [PStr ''a'', PStr ''b'']),
        (''var_file'', PList []), (''input'', Atom (PBool False))]
       demo_tf demo_world
     = Inr ([''terraform'', ''plan'', ''-no-color'', ''-target=a'', ''-target=b'',
             ''-input=false'', ''dir''], demo_tf, demo_world)"
proof -
  let ?pf = "demo_platform (\<lambda>d. SpawnFails)"
  have pre: "for_options ?pf [(''no_color'', IsFlagged)] [''terraform'', ''plan''] demo_tf demo_world
               = ([''terraform'', ''plan'', ''-no-color''], demo_tf, demo_world)"
    by (simp add: cli_name_def replace_underscores_def)
  show ?thesis
    using list_option_encoding [OF pre, of "''target''" "[PStr ''a'', PStr ''b'']"
        "[(''var_file'', PList []), (''input'', Atom (PBool False))]"]
    by (simp add: generate_cmd_string_def COMMAND_WITH_SUBCOMMANDS_def py_split_plan cli_name_def
          replace_underscores_def demo_tf_def)
qed

text \<open>
  A tuple of two targets gives the one token \<open>-target=('a', 'b')\<close>, and an empty tuple the
  token \<open>-target=()\<close>; so does a tuple given as \<open>targets\<close> to the constructor, through the
  default options of the shims.
\<close>

theorem tuple_option_is_one_token:
  "generate_cmd_string (demo_platform (\<lambda>d. SpawnFails)) ''plan'' []
       [(''target'', PTuple [PStr ''a'', PStr ''b''])] demo_tf demo_world
     = Inr ([''terraform'', ''plan'', ''-target=('a', 'b')''], demo_tf, demo_world)
   \<and> generate_cmd_string (demo_platform (\<lambda>d. SpawnFails)) ''plan'' []
       [(''target'', PTuple [])] demo_tf demo_world
     = Inr ([''terraform'', ''plan'', ''-target=()''], demo_tf, demo_world)
   \<and> generate_cmd_string (demo_platform (\<lambda>d. SpawnFails)) ''plan'' []
       (generate_default_options (demo_tf\<lparr>targets := PTuple [PStr ''a'', PStr ''b'']\<rparr>) [])
       (demo_tf\<lparr>targets := PTuple [PStr ''a'', PStr ''b'']\<rparr>) demo_world
     = Inr ([''terraform'', ''plan'', ''-target=('a', 'b')'', ''-no-color'', ''-input=false''],
            demo_tf\<lparr>targets := PTuple [PStr ''a'', PStr ''b'']\<rparr>, demo_world)"
  by (simp add: generate_cmd_string_def COMMAND_WITH_SUBCOMMANDS_def py_split_plan cli_name_def
        replace_underscores_def generate_default_options_def opt_str_def demo_platform_def
        demo_tf_def)

text \<open>
  C7. An option whose value is \<open>IsFlagged\<close> appends the bare token \<open>-name\<close>; \<open>None\<close> and
  \<open>IsNotFlagged\<close> append nothing; a boolean appends \<open>-name=true\<close> or \<open>-name=false\<close>.
\<close>

theorem flag_and_boolean_encoding:
  assumes "for_options pf pre cmds tf w = (c1, tf1, w1)"
  shows "for_options pf (pre @ (name, IsFlagged) # post) cmds tf w =
           for_options pf post (c1 @ [''-'' @ cli_name name]) tf1 w1
         \<and> for_options pf (pre @ (name, Atom PNone) # post) cmds tf w =
             for_options pf post c1 tf1 w1
         \<and> for_options pf (pre @ (name, IsNotFlagged) # post) cmds tf w =
             for_options pf post c1 tf1 w1
         \<and> for_options pf (pre @ (name, Atom (PBool True)) # post) cmds tf w =
             for_options pf post (c1 @ [''-'' @ cli_name name @ ''=true'']) tf1 w1
         \<and> for_options pf (pre @ (name, Atom (PBool False)) # post) cmds tf w =
             for_options pf post (c1 @ [''-'' @ cli_name name @ ''=false'']) tf1 w1"
  using assms by (simp add: for_options_split)

theorem flag_and_boolean_encoding_witness:
  "generate_cmd_string (demo_platform (\<lambda>d. SpawnFails)) ''plan'' [''dir'']
       [(''state'', Atom (PStr ''s.tfstate'')), (''no_color'', IsFlagged), (''parallelism'', Atom (PInt 4))]
       demo_tf demo_world
     = Inr ([''terraform'', ''plan'', ''-state=s.tfstate'', ''-no-color'', ''-parallelism=4'', ''dir''],
            demo_tf, demo_world)
   \<and> generate_cmd_string (demo_platform (\<lambda>d. SpawnFails)) ''plan'' [''dir'']
       [(''state'', Atom (PStr ''s.tfstate'')), (''force'', IsNotFlagged), (''parallelism'', Atom (PInt 4))]
       demo_tf demo_world
     = Inr ([''terraform'', ''plan'', ''-state=s.tfstate'', ''-parallelism=4'', ''dir''],
            demo_tf, demo_world)
   \<and> generate_cmd_string (demo_platform (\<lambda>d. SpawnFails)) ''plan'' [''dir'']
       [(''state'', Atom (PStr ''s.tfstate'')), (''var_file'', Atom PNone), (''parallelism'', Atom (PInt 4))]
       demo_tf demo_world
     = Inr ([''terraform'', ''plan'', ''-state=s.tfstate'', ''-parallelism=4'', ''dir''],
            demo_tf, demo_world)
   \<and> generate_cmd_string (demo_platform (\<lambda>d. SpawnFails)) ''plan'' [''dir'']
       [(''state'', Atom (PStr ''s.tfstate'')), (''input'', Atom (PBool False)), (''parallelism'', Atom (PInt 4))]
       demo_tf demo_world
     = Inr ([''terraform'', ''plan'', ''-state=s.tfstate'', ''-input=false'', ''-parallelism=4'', ''dir''],
            demo_tf, demo_world)
   \<and> generate_cmd_string (demo_platform (\<lambda>d. SpawnFails)) ''plan'' [''dir'']
       [(''state'', Atom (PStr ''s.tfstate'')), (''refresh'', Atom (PBool True)), (''parallelism'', Atom (PInt 4))]
       demo_tf demo_world
     = Inr ([''terraform'', ''plan'', ''-state=s.tfstate'', ''-refresh=true'', ''-parallelism=4'', ''dir''],
            demo_tf, demo_world)"
proof -
  let ?pf = "demo_platform (\<lambda>d. SpawnFails)"
  have pre: "for_options ?pf [(''state'', Atom (PStr ''s.tfstate''))] [''terraform'', ''plan''] demo_tf demo_world
               = ([''terraform'', ''plan'', ''-state=s.tfstate''], demo_tf, demo_world)"
    by (simp add: cli_name_def)
  have four: "str_of_int 4 = ''4''"
    by (simp add: str_of_int_def str_of_nat.simps)
  note th = flag_and_boolean_encoding [OF pre, of _ "[(''parallelism'', Atom (PInt 4))]"]
  show ?thesis
    using th [of "''no_color''"] th [of "''force''"] th [of "''var_file''"] th [of "''input''"]
      th [of "''refresh''"]
    by (simp add: generate_cmd_string_def COMMAND_WITH_SUBCOMMANDS_def py_split_plan cli_name_def
          replace_underscores_def demo_tf_def four)
qed

text \<open>
  C5. A command of \<open>COMMAND_WITH_SUBCOMMANDS\<close> with at least one positional argument: the
  command line is the binary, the command, the first positional argument, the tokens of the
  options, and the remaining positional arguments in their order.
\<close>

theorem compound_command_encoding:
  assumes "c \<in> set COMMAND_WITH_SUBCOMMANDS"
    and "for_options pf kw [] tf w = (encoded, tf', w')"
  shows "generate_cmd_string pf c (first # remaining) kw tf w =
           Inr ([terraform_bin_path tf, ''workspace'', first] @ encoded @ remaining, tf', w')
         \<and> py_split c = [''workspace'']"
proof -
  from assms(1) have c: "c = ''workspace''"
    by (simp add: COMMAND_WITH_SUBCOMMANDS_def)
  have sp: "py_split ''workspace'' = [''workspace'']"
    by (simp add: py_split_def py_isspace_def)
  show ?thesis
    using for_options_append [of pf kw "[terraform_bin_path tf, ''workspace'', first]" tf w] assms(2)
    by (simp add: generate_cmd_string_def COMMAND_WITH_SUBCOMMANDS_def c sp)
qed

theorem compound_command_encoding_witness:
  "generate_cmd_string (demo_platform (\<lambda>d. SpawnFails)) ''workspace'' [''select'', ''staging'']
       [(''no_color'', IsFlagged)] demo_tf demo_world
     = Inr ([''terraform'', ''workspace'', ''select'', ''-no-color'', ''staging''],
            demo_tf, demo_world)"
proof -
  let ?pf = "demo_platform (\<lambda>d. SpawnFails)"
  have m: "''workspace'' \<in> set COMMAND_WITH_SUBCOMMANDS"
    by (simp add: COMMAND_WITH_SUBCOMMANDS_def)
  have enc: "for_options ?pf [(''no_color'', IsFlagged)] [] demo_tf demo_world
               = ([''-no-color''], demo_tf, demo_world)"
    by (simp add: cli_name_def replace_underscores_def)
  show ?thesis
    using compound_command_encoding [OF m enc, of "''select''" "[''staging'']"]
    by (simp add: demo_tf_def)
qed

section \<open>Cleaning up the variable files\<close>

text \<open>The loop of \<open>clean_up\<close> runs through exactly when every tracked name is on disk,
  tracked once, and may be removed; it then leaves the disk without these names. When it
  stops, it stops at the first name that cannot be removed.\<close>

lemma unlink_all_ok_iff:
  "(fst (unlink_all R fs d) = None) =
     (distinct fs \<and> set fs \<subseteq> dom d \<and> (\<forall>f \<in> set fs. \<not> R f))"
proof (induction fs arbitrary: d)
  case Nil
  show ?case by simp
next
  case (Cons f fs)
  show ?case
  proof (cases "d f")
    case None
    then have "f \<notin> dom d" by (simp add: domIff)
    with None show ?thesis by simp
  next
    case (Some c)
    then have f: "f \<in> dom d" by (simp add: domIff)
    show ?thesis
    proof (cases "R f")
      case True
      with Some show ?thesis by simp
    next
      case False
      have step: "fst (unlink_all R (f # fs) d) = fst (unlink_all R fs (d(f := None)))"
        using Some False by simp
      have ih: "(fst (unlink_all R fs (d(f := None))) = None) =
                  (distinct fs \<and> set fs \<subseteq> dom (d(f := None)) \<and> (\<forall>g \<in> set fs. \<not> R g))"
        by (rule Cons.IH)
      have dm: "dom (d(f := None)) = dom d - {f}"
        by (simp only: dom_fun_upd simp_thms if_True)
      have "(distinct fs \<and> set fs \<subseteq> dom d - {f} \<and> (\<forall>g \<in> set fs. \<not> R g)) =
              (distinct (f # fs) \<and> set (f # fs) \<subseteq> dom d \<and> (\<forall>g \<in> set (f # fs). \<not> R g))"
        using f False by auto
      with step ih dm show ?thesis by (simp only:)
    qed
  qed
qed

lemma unlink_all_ok_disk:
  "fst (unlink_all R fs d) = None \<Longrightarrow>
     snd (unlink_all R fs d) = (\<lambda>p. if p \<in> set fs then None else d p)"
proof (induction fs arbitrary: d)
  case Nil
  show ?case by simp
next
  case (Cons f fs)
  show ?case
  proof (cases "d f")
    case None
    with Cons.prems show ?thesis by simp
  next
    case (Some c)
    with Cons.prems have nr: "\<not> R f" by (auto split: if_splits)
    with Some Cons.prems have "fst (unlink_all R fs (d(f := None))) = None" by simp
    from Cons.IH [OF this]
    have "snd (unlink_all R fs (d(f := None))) =
            (\<lambda>p. if p \<in> set fs then None else (d(f := None)) p)" .
    also have "\<dots> = (\<lambda>p. if p \<in> set (f # fs) then None else d p)"
      by (rule ext) simp
    finally show ?thesis using Some nr by simp
  qed
qed

lemma unlink_all_fail:
  "fst (unlink_all R fs d) = Some e \<Longrightarrow>
     \<exists>pre f post. fs = pre @ f # post
       \<and> snd (unlink_all R fs d) = (\<lambda>p. if p \<in> set pre then None else d p)
       \<and> ((d f = None \<or> f \<in> set pre) \<and> e = FileNotFoundError f
          \<or> d f \<noteq> None \<and> f \<notin> set pre \<and> R f \<and> e = PermissionError f)"
proof (induction fs arbitrary: d)
  case Nil
  then show ?case by simp
next
  case (Cons g gs)
  show ?case
  proof (cases "d g")
    case None
    with Cons.prems have "e = FileNotFoundError g" by simp
    with None have "g # gs = [] @ g # gs
        \<and> snd (unlink_all R (g # gs) d) = (\<lambda>p. if p \<in> set [] then None else d p)
        \<and> ((d g = None \<or> g \<in> set []) \<and> e = FileNotFoundError g
           \<or> d g \<noteq> None \<and> g \<notin> set [] \<and> R g \<and> e = PermissionError g)"
      by simp
    then show ?thesis by blast
  next
    case (Some c)
    show ?thesis
    proof (cases "R g")
      case True
      with Some Cons.prems have "e = PermissionError g" by simp
      with Some True have "g # gs = [] @ g # gs
          \<and> snd (unlink_all R (g # gs) d) = (\<lambda>p. if p \<in> set [] then None else d p)
          \<and> ((d g = None \<or> g \<in> set []) \<and> e = FileNotFoundError g
             \<or> d g \<noteq> None \<and> g \<notin> set [] \<and> R g \<and> e = PermissionError g)"
        by simp
      then show ?thesis by blast
    next
      case False
      let ?d = "d(g := None)"
      from Some False have step: "unlink_all R (g # gs) d = unlink_all R gs ?d" by simp
      with Cons.prems have "fst (unlink_all R gs ?d) = Some e" by simp
      from Cons.IH [OF this] obtain pre f post where
        gs: "gs = pre @ f # post" and
        sd: "snd (unlink_all R gs ?d) = (\<lambda>p. if p \<in> set pre then None else ?d p)" and
        ee: "(?d f = None \<or> f \<in> set pre) \<and> e = FileNotFoundError f
             \<or> ?d f \<noteq> None \<and> f \<notin> set pre \<and> R f \<and> e = PermissionError f"
        by blast
      have a: "g # gs = (g # pre) @ f # post" using gs by simp
      have "(\<lambda>p. if p \<in> set pre then None else ?d p)
              = (\<lambda>p. if p \<in> set (g # pre) then None else d p)"
        by (rule ext) simp
      with sd step have b: "snd (unlink_all R (g # gs) d)
              = (\<lambda>p. if p \<in> set (g # pre) then None else d p)"
        by simp
      have c: "(d f = None \<or> f \<in> set (g # pre)) \<and> e = FileNotFoundError f
             \<or> d f \<noteq> None \<and> f \<notin> set (g # pre) \<and> R f \<and> e = PermissionError f"
        using ee by (cases "f = g") auto
      from a b c show ?thesis by blast
    qed
  qed
qed

section \<open>The steps of cmd\<close>

lemma generate_cmd_string_frame:
  assumes "generate_cmd_string pf c args kw tf w = Inr (cmds, tf1, w1)"
  shows "tf1 = tf\<lparr>temp_var_files := temp_var_files tf1\<rparr> \<and> w1 = w\<lparr>disk := disk w1\<rparr>"
  using assms
  by (auto simp: generate_cmd_string_def Let_def
        split: if_splits list.splits prod.splits dest: for_options_frame)

lemma generate_cmd_string_calls:
  assumes "generate_cmd_string pf c args kw tf w = Inr (cmds, tf1, w1)"
  shows "calls w1 = calls w" and "tfstate tf1 = tfstate tf"
proof -
  from generate_cmd_string_frame [OF assms]
  have "tf1 = tf\<lparr>temp_var_files := temp_var_files tf1\<rparr>" and "w1 = w\<lparr>disk := disk w1\<rparr>"
    by simp_all
  then have "calls w1 = calls (w\<lparr>disk := disk w1\<rparr>)"
    and "tfstate tf1 = tfstate (tf\<lparr>temp_var_files := temp_var_files tf1\<rparr>)"
    by simp_all
  then show "calls w1 = calls w" and "tfstate tf1 = tfstate tf" by simp_all
qed

lemma read_state_file_effect:
  assumes "read_state_file pf fp tf w = (r, tf', w')"
  shows "calls w' = calls w @ [EvReadStateFile]" and "disk w' = disk w"
    and "temp_var_files tf' = temp_var_files tf"
    and "r = Inl StateReadError \<or> r = Inr ()"
    and "r = Inl e \<Longrightarrow> tf' = tf"
  using assms
  by (auto simp: read_state_file_def Let_def split: option.splits)

lemma clean_up_effect:
  assumes "clean_up pf tf w = (r, tf', w')"
  shows "calls w' = calls w @ [EvCleanUp]" and "tfstate tf' = tfstate tf"
    and "r = Inr u \<Longrightarrow> tf' = tf\<lparr>temp_var_files := []\<rparr>"
    and "r = Inr u \<Longrightarrow> disk w' = (\<lambda>p. if p \<in> set (temp_var_files tf) then None else disk w p)"
    and "r = Inr u \<Longrightarrow> distinct (temp_var_files tf) \<and> set (temp_var_files tf) \<subseteq> dom (disk w)
           \<and> (\<forall>f \<in> set (temp_var_files tf). \<not> unlink_refused pf f)"
    and "r = Inl e \<Longrightarrow> tf' = tf"
    and "r = Inl e \<Longrightarrow> \<exists>pre f post. temp_var_files tf = pre @ f # post
           \<and> disk w' = (\<lambda>p. if p \<in> set pre then None else disk w p)
           \<and> ((disk w f = None \<or> f \<in> set pre) \<and> e = FileNotFoundError f
              \<or> disk w f \<noteq> None \<and> f \<notin> set pre \<and> unlink_refused pf f \<and> e = PermissionError f)"
proof -
  obtain x d where u: "unlink_all (unlink_refused pf) (temp_var_files tf) (disk w) = (x, d)"
    by (cases "unlink_all (unlink_refused pf) (temp_var_files tf) (disk w)")
  show "calls w' = calls w @ [EvCleanUp]" and "tfstate tf' = tfstate tf"
    and "r = Inr u \<Longrightarrow> tf' = tf\<lparr>temp_var_files := []\<rparr>"
    and "r = Inl e \<Longrightarrow> tf' = tf"
    using assms u by (cases x; auto simp: clean_up_def Let_def)+
  show "r = Inr u \<Longrightarrow> disk w' = (\<lambda>p. if p \<in> set (temp_var_files tf) then None else disk w p)"
    using assms u unlink_all_ok_disk [of "unlink_refused pf" "temp_var_files tf" "disk w"]
    by (cases x) (auto simp: clean_up_def Let_def)
  show "r = Inr u \<Longrightarrow> distinct (temp_var_files tf) \<and> set (temp_var_files tf) \<subseteq> dom (disk w)
           \<and> (\<forall>f \<in> set (temp_var_files tf). \<not> unlink_refused pf f)"
    using assms u unlink_all_ok_iff [of "unlink_refused pf" "temp_var_files tf" "disk w"]
    by (cases x) (auto simp: clean_up_def Let_def)
  show "\<exists>pre f post. temp_var_files tf = pre @ f # post
           \<and> disk w' = (\<lambda>p. if p \<in> set pre then None else disk w p)
           \<and> ((disk w f = None \<or> f \<in> set pre) \<and> e = FileNotFoundError f
              \<or> disk w f \<noteq> None \<and> f \<notin> set pre \<and> unlink_refused pf f \<and> e = PermissionError f)"
    if "r = Inl e"
  proof -
    from that assms u have x: "x = Some e" and d: "disk w' = d"
      by (cases x; auto simp: clean_up_def Let_def)+
    from unlink_all_fail [of "unlink_refused pf" "temp_var_files tf" "disk w" e] u x d
    show ?thesis by simp
  qed
qed

lemma decode_streams_error:
  "decode_streams pf co out err = Inl e \<Longrightarrow> e = UnicodeDecodeError"
  by (auto simp: decode_streams_def split: if_splits option.splits)

lemma cmd_sync_run:
  assumes g: "generate_cmd_string pf c args kw tf w = Inr (cmds, tf1, w1)"
    and p: "popen pf cmds (stdio_of co) (working_folder tf1) (environ_vars pf tf1) (disk w1)
              = Exits rc out err d"
    and s: "truthy sy"
    and r: "cmd pf c args co roe sy kw tf w = (r, tf', w')"
  shows "calls w' = calls w @ [EvPopen cmds] @ (if rc = 0 then [EvReadStateFile] else [])
                      @ (if r = Inl StateReadError then [] else [EvCleanUp])"
    and "rc \<noteq> 0 \<Longrightarrow> tfstate tf' = tfstate tf"
    and "(\<exists>x. r = Inr x) \<or> (\<exists>n l so se. r = Inl (TerraformCommandError n l so se))
           \<or> r = Inl UnicodeDecodeError
         \<Longrightarrow> temp_var_files tf' = []
             \<and> disk w' = (\<lambda>p. if p \<in> set (temp_var_files tf1) then None else d p)
             \<and> distinct (temp_var_files tf1) \<and> set (temp_var_files tf1) \<subseteq> dom d
             \<and> (\<forall>f \<in> set (temp_var_files tf1). \<not> unlink_refused pf f)"
    and "r = Inl StateReadError \<Longrightarrow> rc = 0 \<and> tf' = tf1 \<and> disk w' = d"
    and "(\<exists>x. r = Inr x) \<or> (\<exists>n l so se. r = Inl (TerraformCommandError n l so se))
           \<or> r = Inl UnicodeDecodeError \<or> r = Inl StateReadError
           \<or> (\<exists>f. r = Inl (FileNotFoundError f) \<or> r = Inl (PermissionError f))"
    and "r = Inl (FileNotFoundError f) \<or> r = Inl (PermissionError f)
         \<Longrightarrow> temp_var_files tf' = temp_var_files tf1 \<and> f \<in> set (temp_var_files tf1)
             \<and> \<not> (distinct (temp_var_files tf1) \<and> set (temp_var_files tf1) \<subseteq> dom d
                   \<and> (\<forall>g \<in> set (temp_var_files tf1). \<not> unlink_refused pf g))"
proof -
  define w2 where "w2 = w1\<lparr>calls := calls w1 @ [EvPopen cmds], disk := d\<rparr>"
  obtain r3 tf3 w3 where
    rs: "(if rc = 0 then read_state_file pf None tf1 w2 else (Inr (), tf1, w2)) = (r3, tf3, w3)"
    by (cases "if rc = 0 then read_state_file pf None tf1 w2 else (Inr (), tf1, w2)")
  obtain r4 tf4 w4 where cl: "clean_up pf tf3 w3 = (r4, tf4, w4)"
    by (cases "clean_up pf tf3 w3")
  have c2: "calls w2 = calls w @ [EvPopen cmds]" and d2: "disk w2 = d"
    using generate_cmd_string_calls(1) [OF g] by (simp_all add: w2_def)
  have c3: "calls w3 = calls w2 @ (if rc = 0 then [EvReadStateFile] else [])"
    and f3: "temp_var_files tf3 = temp_var_files tf1"
    and r3: "r3 = Inl StateReadError \<or> r3 = Inr ()"
    and t3: "rc \<noteq> 0 \<Longrightarrow> tfstate tf3 = tfstate tf"
    and d3: "disk w3 = d"
    using rs read_state_file_effect(1-4) [of pf None tf1 w2 r3 tf3 w3]
      generate_cmd_string_calls(2) [OF g] d2
    by (auto split: if_splits)
  have z3: "r3 = Inl StateReadError \<Longrightarrow> rc = 0 \<and> tf3 = tf1"
    using rs read_state_file_effect(5) [of pf None tf1 w2 r3 tf3 w3 StateReadError]
    by (auto split: if_splits)
  note c4 = clean_up_effect [OF cl]
  have ok4: "r4 = Inr () \<Longrightarrow> temp_var_files tf4 = []
      \<and> disk w4 = (\<lambda>p. if p \<in> set (temp_var_files tf1) then None else d p)
      \<and> distinct (temp_var_files tf1) \<and> set (temp_var_files tf1) \<subseteq> dom d
      \<and> (\<forall>f \<in> set (temp_var_files tf1). \<not> unlink_refused pf f)"
    using c4(3) [of "()"] c4(4) [of "()"] c4(5) [of "()"] f3 d3 by (auto simp: fun_eq_iff)
  have bad4: "r4 = Inl e \<Longrightarrow> temp_var_files tf4 = temp_var_files tf1
      \<and> (\<exists>f \<in> set (temp_var_files tf1). e = FileNotFoundError f \<or> e = PermissionError f)" for e
    using c4(6) [of e] c4(7) [of e] f3 by auto
  have no4: "r4 = Inl e \<Longrightarrow> \<not> (distinct (temp_var_files tf1) \<and> set (temp_var_files tf1) \<subseteq> dom d
      \<and> (\<forall>g \<in> set (temp_var_files tf1). \<not> unlink_refused pf g))" for e
  proof -
    assume "r4 = Inl e"
    with cl have "fst (unlink_all (unlink_refused pf) (temp_var_files tf3) (disk w3)) \<noteq> None"
      by (auto simp: clean_up_def Let_def split: prod.splits option.splits)
    with unlink_all_ok_iff [of "unlink_refused pf" "temp_var_files tf3" "disk w3"] f3 d3
    show ?thesis by simp
  qed
  have unfold: "cmd pf c args co roe sy kw tf w =
      (case r3 of
         Inl e \<Rightarrow> (Inl e, tf3, w3)
       | Inr _ \<Rightarrow>
           (case r4 of
              Inl e \<Rightarrow> (Inl e, tf4, w4)
            | Inr _ \<Rightarrow>
                (case decode_streams pf co out err of
                   Inl e \<Rightarrow> (Inl e, tf4, w4)
                 | Inr (out', err') \<Rightarrow>
                     if rc > 0 \<and> truthy roe
                     then (Inl (TerraformCommandError rc (py_join '' '' cmds) out' err'), tf4, w4)
                     else (Inr (Some rc, out', err'), tf4, w4))))"
  proof -
    have "cmd pf c args co roe sy kw tf w =
      (case (if rc = 0 then read_state_file pf None tf1 w2 else (Inr (), tf1, w2)) of
         (Inl e, tf3, w3) \<Rightarrow> (Inl e, tf3, w3)
       | (Inr _, tf3, w3) \<Rightarrow>
           (case clean_up pf tf3 w3 of
              (Inl e, tf4, w4) \<Rightarrow> (Inl e, tf4, w4)
            | (Inr _, tf4, w4) \<Rightarrow>
                (case decode_streams pf co out err of
                   Inl e \<Rightarrow> (Inl e, tf4, w4)
                 | Inr (out', err') \<Rightarrow>
                     if rc > 0 \<and> truthy roe
                     then (Inl (TerraformCommandError rc (py_join '' '' cmds) out' err'), tf4, w4)
                     else (Inr (Some rc, out', err'), tf4, w4))))"
      unfolding w2_def by (simp add: cmd_def g p s Let_def split del: if_split)
    then show ?thesis
      by (simp only: rs cl prod.case)
  qed
  show "calls w' = calls w @ [EvPopen cmds] @ (if rc = 0 then [EvReadStateFile] else [])
                      @ (if r = Inl StateReadError then [] else [EvCleanUp])"
    using r unfold r3 c2 c3 c4(1) bad4 decode_streams_error [of pf co out err]
    by (auto split: sum.splits prod.splits if_splits)
  show "rc \<noteq> 0 \<Longrightarrow> tfstate tf' = tfstate tf"
    using r unfold t3 c4(2)
    by (auto split: sum.splits prod.splits if_splits)
  show "temp_var_files tf' = []
         \<and> disk w' = (\<lambda>p. if p \<in> set (temp_var_files tf1) then None else d p)
         \<and> distinct (temp_var_files tf1) \<and> set (temp_var_files tf1) \<subseteq> dom d
         \<and> (\<forall>f \<in> set (temp_var_files tf1). \<not> unlink_refused pf f)"
    if "(\<exists>x. r = Inr x) \<or> (\<exists>n l so se. r = Inl (TerraformCommandError n l so se))
           \<or> r = Inl UnicodeDecodeError"
  proof -
    from that r unfold r3 bad4 have "r4 = Inr () \<and> tf' = tf4 \<and> w' = w4"
      by (auto split: sum.splits prod.splits if_splits)
    with ok4 show ?thesis by simp
  qed
  show "rc = 0 \<and> tf' = tf1 \<and> disk w' = d" if "r = Inl StateReadError"
  proof -
    from that r unfold r3 bad4 decode_streams_error [of pf co out err]
    have "r3 = Inl StateReadError \<and> tf' = tf3 \<and> w' = w3"
      by (auto split: sum.splits prod.splits if_splits)
    with z3 d3 show ?thesis by simp
  qed
  show "(\<exists>x. r = Inr x) \<or> (\<exists>n l so se. r = Inl (TerraformCommandError n l so se))
           \<or> r = Inl UnicodeDecodeError \<or> r = Inl StateReadError
           \<or> (\<exists>f. r = Inl (FileNotFoundError f) \<or> r = Inl (PermissionError f))"
    using r unfold r3 bad4 decode_streams_error [of pf co out err]
    by (auto split: sum.splits prod.splits if_splits)
  show "temp_var_files tf' = temp_var_files tf1 \<and> f \<in> set (temp_var_files tf1)
         \<and> \<not> (distinct (temp_var_files tf1) \<and> set (temp_var_files tf1) \<subseteq> dom d
               \<and> (\<forall>g \<in> set (temp_var_files tf1). \<not> unlink_refused pf g))"
    if "r = Inl (FileNotFoundError f) \<or> r = Inl (PermissionError f)"
  proof -
    from that r unfold r3 decode_streams_error [of pf co out err]
    have "(\<exists>e. r4 = Inl e \<and> r = Inl e) \<and> tf' = tf4"
      by (auto split: sum.splits prod.splits if_splits)
    then obtain e where e: "r4 = Inl e" "r = Inl e" "tf' = tf4" by blast
    from bad4 [OF e(1)] no4 [OF e(1)] e(2) e(3) that show ?thesis by auto
  qed
qed

lemma generate_cmd_string_error:
  "generate_cmd_string pf c args kw tf w = Inl e \<Longrightarrow> e = IndexError"
  by (auto simp: generate_cmd_string_def Let_def split: if_splits list.splits prod.splits)




text \<open>With \<open>raise_on_error\<close> true, a run that would return its tuple raises exactly when the
  return code is positive, with the fields of that tuple.\<close>

lemma cmd_raise_on_error:
  assumes g: "generate_cmd_string pf c args kw tf w = Inr (cmds, tf1, w1)"
    and p: "popen pf cmds (stdio_of co) (working_folder tf1) (environ_vars pf tf1) (disk w1)
              = Exits rc out err d"
    and s: "truthy sy"
    and f: "cmd pf c args co (Atom (PBool False)) sy kw tf w = (Inr (code, so, se), tf', w')"
    and t: "truthy roe"
  shows "code = Some rc"
    and "cmd pf c args co roe sy kw tf w =
           (if rc > 0 then Inl (TerraformCommandError rc (py_join '' '' cmds) so se)
            else Inr (code, so, se), tf', w')"
  using f t
  by (auto simp: cmd_def g p s Let_def split: sum.splits prod.splits if_splits)

lemmas demo_defs = demo_platform_def demo_tf_def demo_world_def

lemmas cmd_defs = cmd_def generate_cmd_string_def COMMAND_WITH_SUBCOMMANDS_def cli_name_def
  replace_underscores_def create_def stdio_of_def working_folder_def environ_vars_def
  truthy_str_def read_state_file_def str_or_def path_join_def path_join_step_def clean_up_def
  decode_streams_def Let_def

lemma py_split_output: "py_split ''output'' = [''output'']"
  by (simp add: py_split_def py_isspace_def)

section \<open>Properties of clean_up\<close>

text \<open>
  C9, as the code has it. \<open>clean_up\<close> returns without raising exactly when every tracked file
  is on disk, is tracked once, and may be removed. It then removes these files and no
  other, empties the list of tracked files, and a second \<open>clean_up\<close> right after it changes
  nothing and does not raise either; with no tracked file it is a no-op.
  Otherwise it raises at the first tracked file that \<open>os.unlink\<close> cannot remove,
  \<open>FileNotFoundError\<close> when that file is not on disk (any more), \<open>PermissionError\<close> when
  it is there and may not be removed; the files tracked before it are removed, and the list
  of tracked files is kept as it was. In particular it raises, and keeps the list, whenever
  a tracked file is missing from disk.
  In \<open>cmd\<close>, when a tracked file is missing from the disk the child leaves behind, the
  synchronous invocation ends in the error of the state reload or in the error of
  \<open>os.unlink\<close>, never in the outcome tuple or in \<open>TerraformCommandError\<close>.
\<close>

theorem clean_up_tolerance:
  "(fst (clean_up pf tf w) = Inr ()) =
     (distinct (temp_var_files tf) \<and> set (temp_var_files tf) \<subseteq> dom (disk w)
      \<and> (\<forall>f \<in> set (temp_var_files tf). \<not> unlink_refused pf f))
   \<and> (fst (clean_up pf tf w) = Inr () \<longrightarrow>
        (case clean_up pf tf w of
           (r, tf', w') \<Rightarrow>
             tf' = tf\<lparr>temp_var_files := []\<rparr>
             \<and> w' = w\<lparr>calls := calls w @ [EvCleanUp],
                      disk := (\<lambda>p. if p \<in> set (temp_var_files tf) then None else disk w p)\<rparr>
             \<and> clean_up pf tf' w' = (Inr (), tf', w'\<lparr>calls := calls w' @ [EvCleanUp]\<rparr>)))
   \<and> (temp_var_files tf = [] \<longrightarrow>
        clean_up pf tf w = (Inr (), tf, w\<lparr>calls := calls w @ [EvCleanUp]\<rparr>))
   \<and> (\<forall>e. fst (clean_up pf tf w) = Inl e \<longrightarrow>
        (case clean_up pf tf w of
           (r, tf', w') \<Rightarrow>
             tf' = tf \<and> calls w' = calls w @ [EvCleanUp]
             \<and> (\<exists>pre f post. temp_var_files tf = pre @ f # post
                   \<and> disk w' = (\<lambda>p. if p \<in> set pre then None else disk w p)
                   \<and> ((disk w f = None \<or> f \<in> set pre) \<and> e = FileNotFoundError f
                      \<or> disk w f \<noteq> None \<and> f \<notin> set pre \<and> unlink_refused pf f
                         \<and> e = PermissionError f))))
   \<and> ((\<exists>f \<in> set (temp_var_files tf). disk w f = None) \<longrightarrow>
        (\<exists>e. fst (clean_up pf tf w) = Inl e) \<and> fst (snd (clean_up pf tf w)) = tf)
   \<and> (truthy sy
        \<and> generate_cmd_string pf c args kw tf w = Inr (cmds, tf1, w1)
        \<and> popen pf cmds (stdio_of co) (working_folder tf1) (environ_vars pf tf1) (disk w1)
            = Exits rc out err d
        \<and> (\<exists>f \<in> set (temp_var_files tf1). d f = None) \<longrightarrow>
        fst (cmd pf c args co roe sy kw tf w) = Inl StateReadError
        \<or> (\<exists>f. fst (cmd pf c args co roe sy kw tf w) = Inl (FileNotFoundError f)
                \<or> fst (cmd pf c args co roe sy kw tf w) = Inl (PermissionError f)))"
proof -
  obtain r tf' w' where cl: "clean_up pf tf w = (r, tf', w')"
    by (cases "clean_up pf tf w")
  note eff = clean_up_effect [OF cl]
  obtain x dd where u: "unlink_all (unlink_refused pf) (temp_var_files tf) (disk w) = (x, dd)"
    by (cases "unlink_all (unlink_refused pf) (temp_var_files tf) (disk w)")
  have rx: "(r = Inr ()) = (x = None)"
    using cl u by (cases x) (auto simp: clean_up_def Let_def)
  have iff: "(r = Inr ()) =
     (distinct (temp_var_files tf) \<and> set (temp_var_files tf) \<subseteq> dom (disk w)
      \<and> (\<forall>f \<in> set (temp_var_files tf). \<not> unlink_refused pf f))"
    using unlink_all_ok_iff [of "unlink_refused pf" "temp_var_files tf" "disk w"] u rx by simp
  have wok: "r = Inr () \<Longrightarrow> w' = w\<lparr>calls := calls w @ [EvCleanUp],
                 disk := (\<lambda>p. if p \<in> set (temp_var_files tf) then None else disk w p)\<rparr>"
    using cl u unlink_all_ok_disk [of "unlink_refused pf" "temp_var_files tf" "disk w"] rx
    by (cases x) (auto simp: clean_up_def Let_def)
  have again: "temp_var_files t = [] \<Longrightarrow>
             clean_up pf t v = (Inr (), t, v\<lparr>calls := calls v @ [EvCleanUp]\<rparr>)"
    for t :: "'a terraform" and v
    by (simp add: clean_up_def Let_def)
  have p1: "(fst (clean_up pf tf w) = Inr ()) =
     (distinct (temp_var_files tf) \<and> set (temp_var_files tf) \<subseteq> dom (disk w)
      \<and> (\<forall>f \<in> set (temp_var_files tf). \<not> unlink_refused pf f))"
    using iff cl by simp
  have p2: "fst (clean_up pf tf w) = Inr () \<longrightarrow>
        (case clean_up pf tf w of
           (r, tf', w') \<Rightarrow>
             tf' = tf\<lparr>temp_var_files := []\<rparr>
             \<and> w' = w\<lparr>calls := calls w @ [EvCleanUp],
                      disk := (\<lambda>p. if p \<in> set (temp_var_files tf) then None else disk w p)\<rparr>
             \<and> clean_up pf tf' w' = (Inr (), tf', w'\<lparr>calls := calls w' @ [EvCleanUp]\<rparr>))"
  proof
    assume "fst (clean_up pf tf w) = Inr ()"
    with cl have r: "r = Inr ()" by simp
    from eff(3) [OF r] wok [OF r] again [of "tf\<lparr>temp_var_files := []\<rparr>" w'] cl
    show "case clean_up pf tf w of
           (r, tf', w') \<Rightarrow>
             tf' = tf\<lparr>temp_var_files := []\<rparr>
             \<and> w' = w\<lparr>calls := calls w @ [EvCleanUp],
                      disk := (\<lambda>p. if p \<in> set (temp_var_files tf) then None else disk w p)\<rparr>
             \<and> clean_up pf tf' w' = (Inr (), tf', w'\<lparr>calls := calls w' @ [EvCleanUp]\<rparr>)"
      by simp
  qed
  have p3: "temp_var_files tf = [] \<longrightarrow>
        clean_up pf tf w = (Inr (), tf, w\<lparr>calls := calls w @ [EvCleanUp]\<rparr>)"
    using again [of tf w] by simp
  have p4: "\<forall>e. fst (clean_up pf tf w) = Inl e \<longrightarrow>
        (case clean_up pf tf w of
           (r, tf', w') \<Rightarrow>
             tf' = tf \<and> calls w' = calls w @ [EvCleanUp]
             \<and> (\<exists>pre f post. temp_var_files tf = pre @ f # post
                   \<and> disk w' = (\<lambda>p. if p \<in> set pre then None else disk w p)
                   \<and> ((disk w f = None \<or> f \<in> set pre) \<and> e = FileNotFoundError f
                      \<or> disk w f \<noteq> None \<and> f \<notin> set pre \<and> unlink_refused pf f
                         \<and> e = PermissionError f)))"
  proof (intro allI impI)
    fix e assume "fst (clean_up pf tf w) = Inl e"
    with cl have r: "r = Inl e" by simp
    from eff(6) [OF r] eff(1) eff(7) [OF r] cl
    show "case clean_up pf tf w of
           (r, tf', w') \<Rightarrow>
             tf' = tf \<and> calls w' = calls w @ [EvCleanUp]
             \<and> (\<exists>pre f post. temp_var_files tf = pre @ f # post
                   \<and> disk w' = (\<lambda>p. if p \<in> set pre then None else disk w p)
                   \<and> ((disk w f = None \<or> f \<in> set pre) \<and> e = FileNotFoundError f
                      \<or> disk w f \<noteq> None \<and> f \<notin> set pre \<and> unlink_refused pf f
                         \<and> e = PermissionError f))"
      by simp
  qed
  have p5: "(\<exists>f \<in> set (temp_var_files tf). disk w f = None) \<longrightarrow>
        (\<exists>e. fst (clean_up pf tf w) = Inl e) \<and> fst (snd (clean_up pf tf w)) = tf"
  proof
    assume "\<exists>f \<in> set (temp_var_files tf). disk w f = None"
    then have "\<not> set (temp_var_files tf) \<subseteq> dom (disk w)" by (auto simp: domIff)
    with iff have "r \<noteq> Inr ()" by simp
    then obtain e where r: "r = Inl e" by (cases r) auto
    from eff(6) [OF r] r cl
    show "(\<exists>e. fst (clean_up pf tf w) = Inl e) \<and> fst (snd (clean_up pf tf w)) = tf"
      by simp
  qed
  have p6: "truthy sy
        \<and> generate_cmd_string pf c args kw tf w = Inr (cmds, tf1, w1)
        \<and> popen pf cmds (stdio_of co) (working_folder tf1) (environ_vars pf tf1) (disk w1)
            = Exits rc out err d
        \<and> (\<exists>f \<in> set (temp_var_files tf1). d f = None) \<longrightarrow>
        fst (cmd pf c args co roe sy kw tf w) = Inl StateReadError
        \<or> (\<exists>f. fst (cmd pf c args co roe sy kw tf w) = Inl (FileNotFoundError f)
                \<or> fst (cmd pf c args co roe sy kw tf w) = Inl (PermissionError f))"
  proof
    assume a: "truthy sy
        \<and> generate_cmd_string pf c args kw tf w = Inr (cmds, tf1, w1)
        \<and> popen pf cmds (stdio_of co) (working_folder tf1) (environ_vars pf tf1) (disk w1)
            = Exits rc out err d
        \<and> (\<exists>f \<in> set (temp_var_files tf1). d f = None)"
    obtain q tq wq where run: "cmd pf c args co roe sy kw tf w = (q, tq, wq)"
      by (cases "cmd pf c args co roe sy kw tf w")
    from a have s: "truthy sy"
      and g: "generate_cmd_string pf c args kw tf w = Inr (cmds, tf1, w1)"
      and p: "popen pf cmds (stdio_of co) (working_folder tf1) (environ_vars pf tf1) (disk w1)
                = Exits rc out err d"
      and m: "\<not> set (temp_var_files tf1) \<subseteq> dom d"
      by (auto simp: domIff)
    from cmd_sync_run(3) [OF g p s run] m
    have "\<not> ((\<exists>x. q = Inr x) \<or> (\<exists>n l so se. q = Inl (TerraformCommandError n l so se))
           \<or> q = Inl UnicodeDecodeError)"
      by blast
    with cmd_sync_run(5) [OF g p s run] run
    show "fst (cmd pf c args co roe sy kw tf w) = Inl StateReadError
        \<or> (\<exists>f. fst (cmd pf c args co roe sy kw tf w) = Inl (FileNotFoundError f)
                \<or> fst (cmd pf c args co roe sy kw tf w) = Inl (PermissionError f))"
      by auto
  qed
  from p1 p2 p3 p4 p5 p6 show ?thesis by (intro conjI)
qed


theorem clean_up_tolerance_witness:
  "fst (clean_up (demo_platform (\<lambda>d. SpawnFails))
          (demo_tf\<lparr>temp_var_files := [''/tmp/tmp0.tfvars.json'']\<rparr>)
          (demo_world\<lparr>disk := [''/tmp/tmp0.tfvars.json'' \<mapsto> ''{}'']\<rparr>)) = Inr ()
   \<and> (\<exists>e. fst (clean_up (demo_platform (\<lambda>d. SpawnFails))
                (demo_tf\<lparr>temp_var_files := [''/tmp/tmp0.tfvars.json'']\<rparr>) demo_world) = Inl e)
   \<and> fst (snd (clean_up (demo_platform (\<lambda>d. SpawnFails))
                (demo_tf\<lparr>temp_var_files := [''/tmp/tmp0.tfvars.json'']\<rparr>) demo_world))
       = demo_tf\<lparr>temp_var_files := [''/tmp/tmp0.tfvars.json'']\<rparr>
   \<and> clean_up (demo_platform (\<lambda>d. SpawnFails)) demo_tf demo_world
       = (Inr (), demo_tf, demo_world\<lparr>calls := [EvCleanUp]\<rparr>)"
proof -
  let ?pf = "demo_platform (\<lambda>d. SpawnFails)"
  let ?tf = "demo_tf\<lparr>temp_var_files := [''/tmp/tmp0.tfvars.json'']\<rparr>"
  have nr: "\<not> unlink_refused ?pf f" for f
    by (simp add: demo_platform_def)
  have missing: "\<exists>f \<in> set (temp_var_files ?tf). disk demo_world f = None"
    by (simp add: demo_world_def)
  show ?thesis
    using clean_up_tolerance [of ?pf ?tf
        "demo_world\<lparr>disk := [''/tmp/tmp0.tfvars.json'' \<mapsto> ''{}'']\<rparr>"]
      clean_up_tolerance [of ?pf ?tf demo_world] missing
      clean_up_tolerance [of ?pf demo_tf demo_world] nr
    by (simp add: demo_tf_def demo_world_def)
qed

text \<open>
  \<open>clean_up\<close> raises \<open>FileNotFoundError\<close> when a tracked file is no longer on disk, and keeps
  the file tracked; in \<open>cmd\<close>, a child that exits with code 0 after the variable file has
  been removed ends in this error, the file still tracked, where the same child leaving the
  file in place ends in the outcome tuple.
\<close>

theorem clean_up_raises_when_file_is_gone:
  "clean_up (demo_platform (\<lambda>d. SpawnFails))
      (demo_tf\<lparr>temp_var_files := [''/tmp/tmp0.tfvars.json'']\<rparr>) demo_world
     = (Inl (FileNotFoundError ''/tmp/tmp0.tfvars.json''),
        demo_tf\<lparr>temp_var_files := [''/tmp/tmp0.tfvars.json'']\<rparr>,
        demo_world\<lparr>calls := [EvCleanUp]\<rparr>)
   \<and> fst (cmd (demo_platform (\<lambda>d. Exits 0 ''ok'' [] Map.empty)) ''plan'' []
           (Atom (PBool True)) (Atom (PBool True)) (Atom (PBool True))
           [(''var'', PDict [(''a'', ''b'')])] demo_tf demo_world)
     = Inl (FileNotFoundError ''/tmp/tmp0.tfvars.json'')
   \<and> temp_var_files (fst (snd (cmd (demo_platform (\<lambda>d. Exits 0 ''ok'' [] Map.empty)) ''plan'' []
           (Atom (PBool True)) (Atom (PBool True)) (Atom (PBool True))
           [(''var'', PDict [(''a'', ''b'')])] demo_tf demo_world)))
     = [''/tmp/tmp0.tfvars.json'']
   \<and> fst (cmd (demo_platform (\<lambda>d. Exits 0 ''ok'' [] d)) ''plan'' []
           (Atom (PBool True)) (Atom (PBool True)) (Atom (PBool True))
           [(''var'', PDict [(''a'', ''b'')])] demo_tf demo_world)
     = Inr (Some 0, Some ''ok'', Some [])"
  by (simp add: cmd_defs demo_defs py_split_plan)

section \<open>Properties of cmd\<close>

text \<open>
  C8. A synchronous invocation whose child process exits: with return code 0,
  \<open>read_state_file\<close> is called exactly once; with any other return code it is not called and
  the stored state is the one the object had before.
\<close>

theorem state_reload_on_zero_only:
  assumes "child pf c args capture_output kw tf w = Some (Exits ret_code out err d)"
    and "truthy synchronous"
    and "cmd pf c args capture_output raise_on_error synchronous kw tf w = (r, tf', w')"
  shows "(ret_code = 0 \<longrightarrow>
            count_list (calls w') EvReadStateFile = count_list (calls w) EvReadStateFile + 1)
         \<and> (ret_code \<noteq> 0 \<longrightarrow>
              count_list (calls w') EvReadStateFile = count_list (calls w) EvReadStateFile
              \<and> tfstate tf' = tfstate tf)"
proof -
  from assms(1) obtain cmds tf1 w1 where
    g: "generate_cmd_string pf c args kw tf w = Inr (cmds, tf1, w1)" and
    p: "popen pf cmds (stdio_of capture_output) (working_folder tf1) (environ_vars pf tf1) (disk w1)
          = Exits ret_code out err d"
    by (auto simp: child_def split: sum.splits)
  from cmd_sync_run(1) [OF g p assms(2) assms(3)] cmd_sync_run(2) [OF g p assms(2) assms(3)]
  show ?thesis by simp
qed

theorem state_reload_on_zero_only_witness:
  "child (demo_platform (\<lambda>d. Exits 0 ''ok'' [] d)) ''plan'' [] (Atom (PBool True)) [] demo_tf demo_world
     = Some (Exits 0 ''ok'' [] Map.empty)
   \<and> count_list (calls (snd (snd (cmd (demo_platform (\<lambda>d. Exits 0 ''ok'' [] d)) ''plan'' []
         (Atom (PBool True)) (Atom (PBool True)) (Atom (PBool True)) [] demo_tf demo_world))))
       EvReadStateFile = 1
   \<and> child (demo_platform (\<lambda>d. Exits 1 [] ''Error'' d)) ''plan'' [] (Atom (PBool True)) [] demo_tf demo_world
     = Some (Exits 1 [] ''Error'' Map.empty)
   \<and> count_list (calls (snd (snd (cmd (demo_platform (\<lambda>d. Exits 1 [] ''Error'' d)) ''plan'' []
         (Atom (PBool True)) (Atom (PBool True)) (Atom (PBool True)) [] demo_tf demo_world))))
       EvReadStateFile = 0
   \<and> tfstate (fst (snd (cmd (demo_platform (\<lambda>d. Exits 1 [] ''Error'' d)) ''plan'' []
         (Atom (PBool True)) (Atom (PBool True)) (Atom (PBool True)) [] demo_tf demo_world)))
       = None"
proof -
  let ?p0 = "demo_platform (\<lambda>d. Exits 0 ''ok'' [] d)"
  let ?p1 = "demo_platform (\<lambda>d. Exits 1 [] ''Error'' d)"
  let ?T = "Atom (PBool True)"
  have c0: "child ?p0 ''plan'' [] ?T [] demo_tf demo_world = Some (Exits 0 ''ok'' [] Map.empty)"
    by (simp add: child_def cmd_defs demo_defs py_split_plan)
  have c1: "child ?p1 ''plan'' [] ?T [] demo_tf demo_world = Some (Exits 1 [] ''Error'' Map.empty)"
    by (simp add: child_def cmd_defs demo_defs py_split_plan)
  have s: "truthy ?T" by simp
  have r0: "cmd ?p0 ''plan'' [] ?T ?T ?T [] demo_tf demo_world =
              (fst (cmd ?p0 ''plan'' [] ?T ?T ?T [] demo_tf demo_world),
               fst (snd (cmd ?p0 ''plan'' [] ?T ?T ?T [] demo_tf demo_world)),
               snd (snd (cmd ?p0 ''plan'' [] ?T ?T ?T [] demo_tf demo_world)))"
    by simp
  have r1: "cmd ?p1 ''plan'' [] ?T ?T ?T [] demo_tf demo_world =
              (fst (cmd ?p1 ''plan'' [] ?T ?T ?T [] demo_tf demo_world),
               fst (snd (cmd ?p1 ''plan'' [] ?T ?T ?T [] demo_tf demo_world)),
               snd (snd (cmd ?p1 ''plan'' [] ?T ?T ?T [] demo_tf demo_world)))"
    by simp
  have w0: "calls demo_world = []" and t0: "tfstate demo_tf = None"
    by (simp_all add: demo_defs)
  show ?thesis
    using state_reload_on_zero_only [OF c0 s r0] state_reload_on_zero_only [OF c1 s r1] c0 c1
    by (simp only: w0 t0 count_list.simps) simp
qed

text \<open>
  C2 at a negative return code (a child killed by signal 9) with \<open>raise_on_error\<close> true: the
  tuple is returned and nothing is raised, where return code 1 raises.
\<close>

theorem negative_return_code_is_returned:
  "fst (cmd (demo_platform (\<lambda>d. Exits (- 9) [] ''Killed'' d)) ''plan'' []
          (Atom (PBool True)) (Atom (PBool True)) (Atom (PBool True)) [] demo_tf demo_world)
     = Inr (Some (- 9), Some [], Some ''Killed'')
   \<and> fst (cmd (demo_platform (\<lambda>d. Exits 1 [] ''Error'' d)) ''plan'' []
          (Atom (PBool True)) (Atom (PBool True)) (Atom (PBool True)) [] demo_tf demo_world)
     = Inl (TerraformCommandError 1 ''terraform plan'' (Some []) (Some ''Error''))"
  by (simp add: cmd_defs demo_defs py_split_plan)

text \<open>
  C3 at a child that exits with code 1, \<open>output\<close> being called with no option: the
  \<open>TerraformCommandError\<close> of \<open>cmd\<close> comes out of \<open>output\<close>. Only with \<open>raise_on_error=False\<close>
  among the options is \<open>None\<close> returned.
\<close>

theorem output_raises_on_nonzero_exit:
  "fst (output_shim (demo_platform (\<lambda>d. Exits 1 [] ''Error'' d)) [] (Atom (PBool True)) []
          demo_tf demo_world)
     = Inl (TerraformCommandError 1 ''terraform output -json'' (Some []) (Some ''Error''))
   \<and> fst (output_shim (demo_platform (\<lambda>d. Exits 1 [] ''Error'' d)) [] (Atom (PBool True))
          [(''raise_on_error'', Atom (PBool False))] demo_tf demo_world)
     = Inr None"
  by (simp add: output_shim_def wrapper_def endswith_def cmd_call_def has_key_def dict_get_def
        dict_del_def cmd_defs demo_defs py_split_output)

section \<open>Properties of the shims\<close>



end
